theory Spec2Isabelle
  imports Complex_Main
begin

section \<open>Data model\<close>

text \<open>
  The chain manager of the plugin (\<^verbatim>\<open>ChainManager\<close>, source file \<^verbatim>\<open>src/unnamed/part_000\<close>)
  and the model lookup of \<^verbatim>\<open>src/src/utils.ts\<close>, as state-passing functions.

  \<^verbatim>\<open>ChainType\<close> is an enum of three modes. A TypeScript enum is not enforced when the
  program runs, and \<^verbatim>\<open>validateChainType\<close> tests for \<^verbatim>\<open>undefined\<close> and \<^verbatim>\<open>null\<close>, so the value
  a \<^verbatim>\<open>chainType\<close> variable holds at run time is one of: undefined, null, a mode, or any
  other value (\<^verbatim>\<open>Unknown\<close>, carrying its text).
\<close>

datatype ChainType = LLM_CHAIN | VAULT_QA_CHAIN | COPILOT_PLUS_CHAIN

datatype chain_type_value = Undefined | Null | Mode ChainType | Unknown string

text \<open>
  Modelled from the spec: \<^verbatim>\<open>CustomModel\<close> is declared in \<^verbatim>\<open>@/aiParams\<close>, which is not
  among the sources. The code reads \<^verbatim>\<open>name\<close> and \<^verbatim>\<open>provider\<close>; the spec adds an optional
  endpoint override.
\<close>

record CustomModel =
  name :: string
  provider :: string
  baseUrl :: "string option"

text \<open>\<^verbatim>\<open>ChatMessage\<close> (\<^verbatim>\<open>@/sharedState\<close>): the code reads \<^verbatim>\<open>sender\<close> and \<^verbatim>\<open>message\<close>.\<close>

record ChatMessage =
  sender :: string
  message :: string

text \<open>
  The chat model handle of the registry. \<^verbatim>\<open>runChain\<close> and \<^verbatim>\<open>isLLMChain\<close> read its
  properties \<^verbatim>\<open>modelName\<close> and \<^verbatim>\<open>model\<close>, either of which may be undefined.
\<close>

record chat_model =
  modelName :: "string option"
  model :: "string option"

text \<open>
  Prompt templates, as \<^verbatim>\<open>ChatPromptTemplate.fromMessages\<close> receives them: a system
  template, a placeholder, a human template, a \<^verbatim>\<open>[role, content]\<close> pair, or a nested
  template.
\<close>

datatype prompt_item =
    SystemMessagePromptTemplate string
  | MessagesPlaceholder string
  | HumanMessagePromptTemplate string
  | RolePair string string
  | ChatPromptTemplate "prompt_item list"

datatype AbortController = AbortController nat

datatype BufferMemory = MemoryInstance

datatype Embeddings = Embeddings string

datatype Orama = Orama nat

text \<open>
  The plain pipeline built by \<^verbatim>\<open>ChainFactory.createNewLLMChain\<close>: the factory is a pure
  constructor, so the pipeline is the record of its arguments. The memory is held by
  reference: there is one memory object, whose contents are in the state below.
\<close>

record LLMChain =
  llm :: "chat_model option"
  memoryRef :: BufferMemory
  prompt :: prompt_item
  abortController :: "AbortController option"

text \<open>
  \<^verbatim>\<open>new HybridRetriever(db, vault, chatModel, embeddingsAPI, brevilabsClient, options, debug)\<close>;
  the vault and the client are fixed members of the manager and are left out.
\<close>

record HybridRetriever =
  retrieverDb :: Orama
  retrieverLlm :: "chat_model option"
  retrieverEmbeddings :: Embeddings
  minSimilarityScore :: rat
  maxK :: nat
  salientTerms :: "string list"
  retrieverDebug :: bool

record ConversationalRetrievalChain =
  qaLlm :: "chat_model option"
  retriever :: HybridRetriever
  systemMessage :: string
  qaDebug :: bool

record SetChainOptions =
  optPrompt :: "prompt_item option"
  optAbortController :: "AbortController option"
  refreshIndex :: bool

datatype error = Error string | TypeError string

datatype 'a completion = Return 'a | Throw error

datatype js_arg = AStr string | AChainType chain_type_value | AError error | AMessage ChatMessage

datatype console_entry =
    ConsoleError string "js_arg list"
  | ConsoleWarn string "js_arg list"
  | ConsoleLog string "js_arg list"

text \<open>
  The writes the manager makes to its two static fields and to the settings store, kept in
  the order in which the code makes them.
\<close>

datatype store_write =
    ChainAssigned LLMChain
  | RetrievalChainAssigned ConversationalRetrievalChain
  | ChainTypePersisted chain_type_value

text \<open>
  The state the manager works on: its two static pipelines, the contents of the
  collaborators it calls (chat model registry, memory, prompt builder, embeddings provider,
  document index), the settings it reads, what it has written to the console and shown
  as notices, and the journal of its writes to the pipelines and to the persisted chain type.
\<close>

record manager_state =
  chain :: "LLMChain option"
  retrievalChain :: "ConversationalRetrievalChain option"
  currentChatModel :: "chat_model option"
  memoryPairs :: "(string \<times> string) list"
  currentChatPrompt :: prompt_item
  embeddingsHandle :: "Embeddings option"
  dbHandle :: "Orama option"
  indexRuns :: nat
  chainTypeSetting :: chain_type_value
  modelKeySetting :: string
  activeModels :: "CustomModel list"
  maxSourceChunks :: nat
  debug :: bool
  systemPromptSetting :: string
  console :: "console_entry list"
  notices :: "string list"
  writes :: "store_write list"

text \<open>
  What the sources do not contain and the code uses: the constants of \<^verbatim>\<open>@/constants\<close>, the
  behaviour of three collaborator calls, and the checks of the prompt library. They are
  parameters of the model:
  \<^verbatim>\<open>registryValidate\<close> is \<^verbatim>\<open>chatModelManager.validateChatModel\<close>, \<^verbatim>\<open>registryInstantiate\<close> is
  the handle that \<^verbatim>\<open>chatModelManager.setChatModel\<close> installs for a custom model,
  \<^verbatim>\<open>initializeDBResult\<close> is what \<^verbatim>\<open>vectorStoreManager.initializeDB()\<close> resolves to (\<^verbatim>\<open>None\<close>
  when the index cannot be opened), and \<^verbatim>\<open>promptError\<close> is the error, if any, that the
  prompt library (\<^verbatim>\<open>@langchain/core/prompts\<close>) raises when it builds a message template
  from an item: \<^verbatim>\<open>HumanMessagePromptTemplate.fromTemplate\<close> on its template source, and
  \<^verbatim>\<open>ChatPromptTemplate.fromMessages\<close> on a \<^verbatim>\<open>[role, content]\<close> pair, whose content it reads as
  template source.
\<close>

record env =
  USER_SENDER :: string
  AI_SENDER :: string
  BUILTIN_CHAT_MODELS :: "CustomModel list"
  registryValidate :: "chat_model option \<Rightarrow> bool"
  registryInstantiate :: "CustomModel \<Rightarrow> chat_model"
  initializeDBResult :: "Orama option"
  promptError :: "prompt_item \<Rightarrow> error option"

section \<open>Collaborator calls\<close>

definition getChatModel :: "manager_state \<Rightarrow> chat_model option" where
  "getChatModel s = currentChatModel s"

definition getMemory :: "manager_state \<Rightarrow> BufferMemory" where
  "getMemory s = MemoryInstance"

definition getChatPrompt :: "manager_state \<Rightarrow> prompt_item" where
  "getChatPrompt s = currentChatPrompt s"

definition getEmbeddingsAPI :: "manager_state \<Rightarrow> Embeddings option" where
  "getEmbeddingsAPI s = embeddingsHandle s"

definition getDb :: "manager_state \<Rightarrow> Orama option" where
  "getDb s = dbHandle s"

definition getChainType :: "manager_state \<Rightarrow> chain_type_value" where
  "getChainType s = chainTypeSetting s"

definition getModelKey :: "manager_state \<Rightarrow> string" where
  "getModelKey s = modelKeySetting s"

definition getSystemPrompt :: "manager_state \<Rightarrow> string" where
  "getSystemPrompt s = systemPromptSetting s"

text \<open>
  Modelled from the spec: the settings provider, the chat model registry, the document
  index and the memory store are outside the sources. \<^verbatim>\<open>setChainType\<close> persists the mode,
  \<^verbatim>\<open>setChatModel\<close> makes the handle of the given model the current one,
  \<^verbatim>\<open>initializeDB\<close> opens the index, \<^verbatim>\<open>indexVaultToVectorStore\<close> runs one full reindex,
  \<^verbatim>\<open>clearChatMemory\<close> empties the memory and \<^verbatim>\<open>saveContext\<close> appends one input/output pair.
  Change notifications of the settings provider are not modelled. The call of
  \<^verbatim>\<open>setChainType\<close> is entered in the journal of writes.
\<close>

definition setChainType :: "chain_type_value \<Rightarrow> manager_state \<Rightarrow> manager_state" where
  "setChainType ct s = s\<lparr>chainTypeSetting := ct, writes := writes s @ [ChainTypePersisted ct]\<rparr>"

definition setChatModel :: "env \<Rightarrow> CustomModel \<Rightarrow> manager_state \<Rightarrow> manager_state" where
  "setChatModel E customModel s = s\<lparr>currentChatModel := Some (registryInstantiate E customModel)\<rparr>"

definition initializeDB :: "env \<Rightarrow> manager_state \<Rightarrow> Orama option \<times> manager_state" where
  "initializeDB E s = (initializeDBResult E, s\<lparr>dbHandle := initializeDBResult E\<rparr>)"

definition indexVaultToVectorStore :: "manager_state \<Rightarrow> manager_state" where
  "indexVaultToVectorStore s = s\<lparr>indexRuns := Suc (indexRuns s)\<rparr>"

definition clearChatMemory :: "manager_state \<Rightarrow> manager_state" where
  "clearChatMemory s = s\<lparr>memoryPairs := []\<rparr>"

definition saveContext :: "string \<Rightarrow> string \<Rightarrow> manager_state \<Rightarrow> manager_state" where
  "saveContext inp out s = s\<lparr>memoryPairs := memoryPairs s @ [(inp, out)]\<rparr>"

definition consoleError :: "string \<Rightarrow> js_arg list \<Rightarrow> manager_state \<Rightarrow> manager_state" where
  "consoleError msg args s = s\<lparr>console := console s @ [ConsoleError msg args]\<rparr>"

definition consoleWarn :: "string \<Rightarrow> js_arg list \<Rightarrow> manager_state \<Rightarrow> manager_state" where
  "consoleWarn msg args s = s\<lparr>console := console s @ [ConsoleWarn msg args]\<rparr>"

definition consoleLog :: "string \<Rightarrow> js_arg list \<Rightarrow> manager_state \<Rightarrow> manager_state" where
  "consoleLog msg args s = s\<lparr>console := console s @ [ConsoleLog msg args]\<rparr>"


section \<open>The chain manager\<close>

definition getChain :: "manager_state \<Rightarrow> LLMChain option" where
  "getChain s = chain s"

definition getRetrievalChain :: "manager_state \<Rightarrow> ConversationalRetrievalChain option" where
  "getRetrievalChain s = retrievalChain s"

text \<open>
  The assignments \<^verbatim>\<open>ChainManager.chain = ...\<close> and \<^verbatim>\<open>ChainManager.retrievalChain = ...\<close>,
  each entered in the journal of writes.
\<close>

definition assignChain :: "LLMChain \<Rightarrow> manager_state \<Rightarrow> manager_state" where
  "assignChain c s = s\<lparr>chain := Some c, writes := writes s @ [ChainAssigned c]\<rparr>"

definition assignRetrievalChain :: "ConversationalRetrievalChain \<Rightarrow> manager_state \<Rightarrow> manager_state" where
  "assignRetrievalChain c s =
     s\<lparr>retrievalChain := Some c, writes := writes s @ [RetrievalChainAssigned c]\<rparr>"

definition validateChainType :: "chain_type_value \<Rightarrow> unit completion" where
  "validateChainType chainType =
     (if chainType = Undefined \<or> chainType = Null then Throw (Error ''No chain type set'')
      else Return ())"



definition createNewLLMChain ::
  "chat_model option \<Rightarrow> BufferMemory \<Rightarrow> prompt_item \<Rightarrow> AbortController option \<Rightarrow> LLMChain" where
  "createNewLLMChain l m p a = \<lparr>llm = l, memoryRef = m, prompt = p, abortController = a\<rparr>"

definition createConversationalRetrievalChain ::
  "chat_model option \<Rightarrow> HybridRetriever \<Rightarrow> string \<Rightarrow> bool \<Rightarrow> ConversationalRetrievalChain" where
  "createConversationalRetrievalChain l r sm d =
     \<lparr>qaLlm = l, retriever = r, systemMessage = sm, qaDebug = d\<rparr>"

definition newHybridRetriever ::
  "Orama \<Rightarrow> chat_model option \<Rightarrow> Embeddings \<Rightarrow> nat \<Rightarrow> bool \<Rightarrow> HybridRetriever" where
  "newHybridRetriever d l e k dbg =
     \<lparr>retrieverDb = d, retrieverLlm = l, retrieverEmbeddings = e,
      minSimilarityScore = 1 / 100, maxK = k, salientTerms = [], retrieverDebug = dbg\<rparr>"

definition promptOr :: "prompt_item option \<Rightarrow> prompt_item \<Rightarrow> prompt_item" where
  "promptOr p chatPrompt = (case p of Some q \<Rightarrow> q | None \<Rightarrow> chatPrompt)"

definition initializeQAChain ::
  "env \<Rightarrow> SetChainOptions \<Rightarrow> manager_state \<Rightarrow> (Embeddings \<times> Orama) completion \<times> manager_state" where
  "initializeQAChain E options s =
     (case getEmbeddingsAPI s of
        None \<Rightarrow> (Throw (Error ''Error getting embeddings API. Please check your settings.''), s)
      | Some embeddingsAPI \<Rightarrow>
          (case getDb s of
             Some d \<Rightarrow>
               (Return (embeddingsAPI, d),
                if refreshIndex options then indexVaultToVectorStore s else s)
           | None \<Rightarrow>
               (let s1 = consoleWarn ''Copilot index is not loaded. Reinitializing...'' [] s in
                case initializeDB E s1 of
                  (None, s2) \<Rightarrow>
                    (Throw (Error ''Database failed to initialize. Please check your settings.''), s2)
                | (Some d, s2) \<Rightarrow>
                    (Return (embeddingsAPI, d),
                     if refreshIndex options then indexVaultToVectorStore s2 else s2))))"

definition setChain ::
  "env \<Rightarrow> chain_type_value \<Rightarrow> SetChainOptions \<Rightarrow> manager_state \<Rightarrow> unit completion \<times> manager_state" where
  "setChain E chainType options s =
     (if \<not> registryValidate E (getChatModel s)
      then (Return (), consoleError ''setChain failed: No chat model set.'' [] s)
      else
        (case validateChainType chainType of
           Throw e \<Rightarrow> (Throw e, s)
         | Return _ \<Rightarrow>
             (let chatModel = getChatModel s;
                  memory = getMemory s;
                  chatPrompt = getChatPrompt s
              in case chainType of
                   Mode LLM_CHAIN \<Rightarrow>
                     (Return (),
                      setChainType (Mode LLM_CHAIN)
                        (assignChain (createNewLLMChain chatModel memory
                               (promptOr (optPrompt options) chatPrompt)
                               (optAbortController options)) s))
                 | Mode VAULT_QA_CHAIN \<Rightarrow>
                     (case initializeQAChain E options s of
                        (Throw e, s1) \<Rightarrow> (Throw e, s1)
                      | (Return (embeddingsAPI, d), s1) \<Rightarrow>
                          (let retr = newHybridRetriever d chatModel embeddingsAPI
                                        (maxSourceChunks s1) (debug s1);
                               s2 = assignRetrievalChain (createConversationalRetrievalChain
                                       chatModel retr (getSystemPrompt s1) (debug s1)) s1;
                               s3 = setChainType (Mode VAULT_QA_CHAIN) s2
                           in (Return (),
                               if debug s3
                               then consoleLog ''Set chain:'' [AChainType (Mode VAULT_QA_CHAIN)]
                                      (consoleLog
                                         ''New Vault QA chain with hybrid retriever created for entire vault''
                                         [] s3)
                               else s3)))
                 | Mode COPILOT_PLUS_CHAIN \<Rightarrow>
                     (case initializeQAChain E options s of
                        (Throw e, s1) \<Rightarrow> (Throw e, s1)
                      | (Return _, s1) \<Rightarrow>
                          (Return (),
                           setChainType (Mode COPILOT_PLUS_CHAIN)
                             (assignChain (createNewLLMChain chatModel memory
                                     (promptOr (optPrompt options) chatPrompt)
                                     (optAbortController options)) s1)))
                 | _ \<Rightarrow>
                     (case validateChainType chainType of
                        Throw e \<Rightarrow> (Throw e, s)
                      | Return _ \<Rightarrow> (Return (), s)))))"

definition defaultOptions :: SetChainOptions where
  "defaultOptions = \<lparr>optPrompt = None, optAbortController = None, refreshIndex = False\<rparr>"

subsection \<open>Model lookup\<close>

text \<open>
  \<^verbatim>\<open>modelKey.split("|")\<close>: the segments between the separators, always at least one.
\<close>

fun split_on :: "char \<Rightarrow> string \<Rightarrow> string list" where
  "split_on c [] = [[]]"
| "split_on c (x # xs) =
     (if x = c then [] # split_on c xs
      else (x # hd (split_on c xs)) # tl (split_on c xs))"

text \<open>
  \<^verbatim>\<open>const [name, provider] = modelKey.split("|")\<close>: the first segment, and the second one
  when there is one (\<^verbatim>\<open>undefined\<close> otherwise, which equals no model's provider).
\<close>

definition keyName :: "string \<Rightarrow> string" where
  "keyName modelKey = hd (split_on CHR ''|'' modelKey)"

definition keyProvider :: "string \<Rightarrow> string option" where
  "keyProvider modelKey =
     (case tl (split_on CHR ''|'' modelKey) of [] \<Rightarrow> None | p # _ \<Rightarrow> Some p)"

definition keyMatches :: "string \<Rightarrow> CustomModel \<Rightarrow> bool" where
  "keyMatches modelKey m \<longleftrightarrow> name m = keyName modelKey \<and> Some (provider m) = keyProvider modelKey"

text \<open>\<^verbatim>\<open>ChainManager.findCustomModel\<close>: \<^verbatim>\<open>Array.prototype.find\<close> over the active models.\<close>

definition findCustomModel :: "string \<Rightarrow> manager_state \<Rightarrow> CustomModel option" where
  "findCustomModel modelKey s = find (keyMatches modelKey) (activeModels s)"

text \<open>\<^verbatim>\<open>findCustomModel\<close> of \<^verbatim>\<open>utils.ts\<close>: the same search, raising when nothing is found.\<close>

definition utils_findCustomModel :: "string \<Rightarrow> CustomModel list \<Rightarrow> CustomModel completion" where
  "utils_findCustomModel modelKey models =
     (case find (keyMatches modelKey) models of
        None \<Rightarrow> Throw (Error (''No model configuration found for: '' @ modelKey))
      | Some m \<Rightarrow> Return m)"

subsection \<open>Switching the model\<close>

text \<open>
  \<^verbatim>\<open>createChainWithNewModel\<close>. The body of its \<^verbatim>\<open>try\<close> either reaches \<^verbatim>\<open>setChatModel\<close> with a
  model and a key, or raises: \<^verbatim>\<open>BUILTIN_CHAT_MODELS[0]\<close> is \<^verbatim>\<open>undefined\<close> when the table is
  empty, and reading its \<^verbatim>\<open>name\<close> is then a \<^verbatim>\<open>TypeError\<close>, raised before \<^verbatim>\<open>newModelKey\<close> is
  assigned. \<^verbatim>\<open>setChain\<close> is asynchronous and its promise is not awaited: what it raises is a
  rejected promise that nothing handles, not an exception of the caller. The model runs
  the call to its end at the place of the call and drops its completion; the order in which
  the console lines of such a call and of its caller appear is therefore not the program's
  where the call suspends, and no statement below rests on it.
\<close>

definition createChainWithNewModel :: "env \<Rightarrow> manager_state \<Rightarrow> unit completion \<times> manager_state" where
  "createChainWithNewModel E s =
     (let newModelKey = getModelKey s;
          attempt =
            (case findCustomModel newModelKey s of
               Some customModel \<Rightarrow> Inr (customModel, newModelKey, s)
             | None \<Rightarrow>
                 (let s1 = consoleError
                             ''Resetting default model. No model configuration found for: ''
                             [AStr newModelKey] s
                  in case BUILTIN_CHAT_MODELS E of
                       [] \<Rightarrow> Inl (TypeError ''customModel is undefined'', s1)
                     | customModel # _ \<Rightarrow>
                         Inr (customModel, name customModel @ ''|'' @ provider customModel, s1)))
      in case attempt of
           Inr (customModel, key, s1) \<Rightarrow>
             (let s2 = setChatModel E customModel s1;
                  s3 = snd (setChain E (getChainType s2) defaultOptions s2)
              in (Return (), consoleLog (''Setting model to '' @ key) [] s3))
         | Inl (e, s1) \<Rightarrow>
             (Return (),
              consoleLog ''modelKey:'' [AStr newModelKey]
                (consoleError ''createChainWithNewModel failed: '' [AError e] s1)))"

subsection \<open>Running a turn\<close>






datatype ChainRunner = LLMChainRunner | VaultQAChainRunner | CopilotPlusChainRunner

text \<open>
  The text of a chain type inside a template literal; the three modes print as the strings
  that \<^verbatim>\<open>stringToChainType\<close> of \<^verbatim>\<open>utils.ts\<close> maps to them.
\<close>

fun chainTypeText :: "chain_type_value \<Rightarrow> string" where
  "chainTypeText Undefined = ''undefined''"
| "chainTypeText Null = ''null''"
| "chainTypeText (Mode LLM_CHAIN) = ''llm_chain''"
| "chainTypeText (Mode VAULT_QA_CHAIN) = ''vault_qa''"
| "chainTypeText (Mode COPILOT_PLUS_CHAIN) = ''copilot_plus''"
| "chainTypeText (Unknown t) = t"

definition getChainRunner :: "manager_state \<Rightarrow> ChainRunner completion" where
  "getChainRunner s =
     (let chainType = getChainType s
      in case chainType of
           Mode LLM_CHAIN \<Rightarrow> Return LLMChainRunner
         | Mode VAULT_QA_CHAIN \<Rightarrow> Return VaultQAChainRunner
         | Mode COPILOT_PLUS_CHAIN \<Rightarrow> Return CopilotPlusChainRunner
         | _ \<Rightarrow> Throw (Error (''Unsupported chain type: '' @ chainTypeText chainType)))"






subsection \<open>Replaying a transcript into memory\<close>

text \<open>
  The loop of \<^verbatim>\<open>updateMemoryWithLoadedMessages\<close>, from index \<^verbatim>\<open>i\<close> in steps of two.
  \<^verbatim>\<open>messages[i + 1]\<close> is \<^verbatim>\<open>undefined\<close> past the end of the array; a message object is truthy.
\<close>

function replayFrom :: "env \<Rightarrow> ChatMessage list \<Rightarrow> nat \<Rightarrow> manager_state \<Rightarrow> manager_state" where
  "replayFrom E messages i s =
     (if i < length messages
      then (let userMsg = messages ! i;
                aiMsg = (if i + 1 < length messages then Some (messages ! (i + 1)) else None)
            in replayFrom E messages (i + 2)
                 (case aiMsg of
                    None \<Rightarrow> s
                  | Some a \<Rightarrow>
                      if sender userMsg = USER_SENDER E
                      then saveContext (message userMsg) (message a) s
                      else s))
      else s)"
  by pat_completeness auto
termination
  by (relation "measure (\<lambda>(E, messages, i, s). length messages - i)") auto

declare replayFrom.simps [simp del]

definition updateMemoryWithLoadedMessages ::
  "env \<Rightarrow> ChatMessage list \<Rightarrow> manager_state \<Rightarrow> unit completion \<times> manager_state" where
  "updateMemoryWithLoadedMessages E messages s =
     (Return (), replayFrom E messages 0 (clearChatMemory s))"

text \<open>
  The pairs the spec describes, read off the transcript two entries at a time: a pair is
  kept when both entries are there and the first one is the user's.
\<close>

fun committedPairs :: "env \<Rightarrow> ChatMessage list \<Rightarrow> (string \<times> string) list" where
  "committedPairs E (u # a # rest) =
     (if sender u = USER_SENDER E then [(message u, message a)] else []) @ committedPairs E rest"
| "committedPairs E [u] = []"
| "committedPairs E [] = []"

text \<open>
  What it means that the pipeline of a mode stands in the state \<^verbatim>\<open>s'\<close> reached from \<^verbatim>\<open>s\<close>: the
  retrieval pipeline for the vault mode, built on the embeddings handle and the index; the
  plain pipeline for the two other modes, built from the model, the memory and the prompt
  (the prompt of the options when there is one).
\<close>

definition pipelineAssigned ::
  "ChainType \<Rightarrow> SetChainOptions \<Rightarrow> manager_state \<Rightarrow> manager_state \<Rightarrow> bool" where
  "pipelineAssigned m options s s' =
     (case m of
        VAULT_QA_CHAIN \<Rightarrow>
          (case (getEmbeddingsAPI s, getDb s') of
             (Some e, Some d) \<Rightarrow>
               getRetrievalChain s' =
                 Some (createConversationalRetrievalChain (getChatModel s)
                         (newHybridRetriever d (getChatModel s) e (maxSourceChunks s) (debug s))
                         (getSystemPrompt s) (debug s))
           | _ \<Rightarrow> False)
      | _ \<Rightarrow>
          getChain s' =
            Some (createNewLLMChain (getChatModel s) (getMemory s)
                    (promptOr (optPrompt options) (getChatPrompt s))
                    (optAbortController options)))"

text \<open>
  A write that assigns the pipeline of a mode and leaves it standing in the state \<^verbatim>\<open>s'\<close>:
  the retrieval pipeline for the vault mode, the plain pipeline for the two other modes.
\<close>

definition isPipelineWrite :: "ChainType \<Rightarrow> manager_state \<Rightarrow> store_write \<Rightarrow> bool" where
  "isPipelineWrite m s' w =
     (case w of
        ChainAssigned c \<Rightarrow> m \<noteq> VAULT_QA_CHAIN \<and> getChain s' = Some c
      | RetrievalChainAssigned c \<Rightarrow> m = VAULT_QA_CHAIN \<and> getRetrievalChain s' = Some c
      | ChainTypePersisted ct \<Rightarrow> False)"



section \<open>Example configurations\<close>

definition exampleModel :: CustomModel where
  "exampleModel = \<lparr>name = ''gpt-4o'', provider = ''openai'', baseUrl = None\<rparr>"

text \<open>
  The check of the prompt library in the example environment. The library is outside the
  sources; its f-string reader takes a doubled brace for a literal brace, an opening brace
  up to the next closing brace for a variable, and raises on an opening brace that is never
  closed and on a single closing brace. \<^verbatim>\<open>fStringError False\<close> reads template text,
  \<^verbatim>\<open>fStringError True\<close> reads on inside a variable.
\<close>

fun fStringError :: "bool \<Rightarrow> string \<Rightarrow> error option" where
  "fStringError True [] = Some (Error ''Unclosed '{' in template.'')"
| "fStringError True (c # cs) =
     (if c = CHR ''}'' then fStringError False cs else fStringError True cs)"
| "fStringError False [] = None"
| "fStringError False [c] =
     (if c = CHR ''{'' then Some (Error ''Unclosed '{' in template.'')
      else if c = CHR ''}'' then Some (Error ''Single '}' in template.'')
      else None)"
| "fStringError False (c # d # cs) =
     (if c = CHR ''{''
      then (if d = CHR ''{'' then fStringError False cs else fStringError True (d # cs))
      else if c = CHR ''}''
      then (if d = CHR ''}'' then fStringError False cs
            else Some (Error ''Single '}' in template.''))
      else fStringError False (d # cs))"

definition examplePromptError :: "prompt_item \<Rightarrow> error option" where
  "examplePromptError item =
     (case item of
        HumanMessagePromptTemplate t \<Rightarrow> fStringError False t
      | SystemMessagePromptTemplate t \<Rightarrow> fStringError False t
      | RolePair r c \<Rightarrow> fStringError False c
      | MessagesPlaceholder v \<Rightarrow> None
      | ChatPromptTemplate ps \<Rightarrow> None)"

definition exampleEnv :: env where
  "exampleEnv =
     \<lparr>USER_SENDER = ''user'', AI_SENDER = ''ai'',
      BUILTIN_CHAT_MODELS = [exampleModel],
      registryValidate = (\<lambda>h. h \<noteq> None),
      registryInstantiate = (\<lambda>m. \<lparr>modelName = Some (name m), model = None\<rparr>),
      initializeDBResult = Some (Orama 1),
      promptError = examplePromptError\<rparr>"

definition examplePrompt :: prompt_item where
  "examplePrompt =
     ChatPromptTemplate
       [SystemMessagePromptTemplate ''You are a helpful assistant.'',
        MessagesPlaceholder ''history'',
        HumanMessagePromptTemplate ''{input}'']"

definition exampleState :: manager_state where
  "exampleState =
     \<lparr>chain = None, retrievalChain = None,
      currentChatModel = Some \<lparr>modelName = Some ''gpt-4o'', model = None\<rparr>,
      memoryPairs = [(''question'', ''answer'')],
      currentChatPrompt = examplePrompt,
      embeddingsHandle = Some (Embeddings ''text-embedding-3-small''),
      dbHandle = None, indexRuns = 0,
      chainTypeSetting = Mode LLM_CHAIN,
      modelKeySetting = ''gpt-4o|openai'',
      activeModels = [exampleModel],
      maxSourceChunks = 3, debug = False,
      systemPromptSetting = ''You are a helpful assistant.'',
      console = [], notices = [], writes = []\<rparr>"

definition exampleRetrievalChain :: ConversationalRetrievalChain where
  "exampleRetrievalChain =
     createConversationalRetrievalChain (Some \<lparr>modelName = Some ''gpt-4o'', model = None\<rparr>)
       (newHybridRetriever (Orama 0) (Some \<lparr>modelName = Some ''gpt-4o'', model = None\<rparr>)
          (Embeddings ''text-embedding-3-small'') 3 False)
       ''You are a helpful assistant.'' False"

definition proxyModel :: CustomModel where
  "proxyModel = \<lparr>name = ''gpt-4o'', provider = ''openai'', baseUrl = Some ''https://proxy.example''\<rparr>"

definition o1Model :: chat_model where
  "o1Model = \<lparr>modelName = Some ''o1-preview'', model = None\<rparr>"


section \<open>Properties of the collaborator calls and of \<^verbatim>\<open>setChain\<close>\<close>

lemmas getters = getChatModel_def getMemory_def getChatPrompt_def getEmbeddingsAPI_def getDb_def
  getChainType_def getSystemPrompt_def getChain_def getRetrievalChain_def

lemmas effects = setChainType_def assignChain_def assignRetrievalChain_def initializeDB_def
  indexVaultToVectorStore_def consoleError_def consoleWarn_def consoleLog_def

lemma initializeQAChain_frame:
  "chain (snd (initializeQAChain E options s)) = chain s
   \<and> retrievalChain (snd (initializeQAChain E options s)) = retrievalChain s
   \<and> chainTypeSetting (snd (initializeQAChain E options s)) = chainTypeSetting s
   \<and> memoryPairs (snd (initializeQAChain E options s)) = memoryPairs s
   \<and> currentChatModel (snd (initializeQAChain E options s)) = currentChatModel s
   \<and> currentChatPrompt (snd (initializeQAChain E options s)) = currentChatPrompt s
   \<and> embeddingsHandle (snd (initializeQAChain E options s)) = embeddingsHandle s
   \<and> maxSourceChunks (snd (initializeQAChain E options s)) = maxSourceChunks s
   \<and> debug (snd (initializeQAChain E options s)) = debug s
   \<and> systemPromptSetting (snd (initializeQAChain E options s)) = systemPromptSetting s
   \<and> notices (snd (initializeQAChain E options s)) = notices s
   \<and> writes (snd (initializeQAChain E options s)) = writes s"
  by (simp add: initializeQAChain_def getters effects Let_def split: option.splits prod.splits)

lemma initializeQAChain_result:
  "fst (initializeQAChain E options s) =
     (case getEmbeddingsAPI s of
        None \<Rightarrow> Throw (Error ''Error getting embeddings API. Please check your settings.'')
      | Some e \<Rightarrow>
          (case (if getDb s = None then initializeDBResult E else getDb s) of
             None \<Rightarrow> Throw (Error ''Database failed to initialize. Please check your settings.'')
           | Some d \<Rightarrow> Return (e, d)))"
  by (simp add: initializeQAChain_def getters effects Let_def split: option.splits prod.splits)

lemma initializeQAChain_index:
  "fst (initializeQAChain E options s) = Return (e, d) \<Longrightarrow>
     getEmbeddingsAPI s = Some e
     \<and> getDb (snd (initializeQAChain E options s)) = Some d
     \<and> getDb (snd (initializeQAChain E options s)) =
         (if getDb s = None then initializeDBResult E else getDb s)
     \<and> indexRuns (snd (initializeQAChain E options s)) =
         (if refreshIndex options then Suc (indexRuns s) else indexRuns s)"
  by (auto simp add: initializeQAChain_def getters effects Let_def split: option.splits prod.splits if_splits)

lemma setChain_llm:
  "registryValidate E (getChatModel s) \<Longrightarrow>
   setChain E (Mode LLM_CHAIN) options s =
     (Return (),
      setChainType (Mode LLM_CHAIN)
        (assignChain (createNewLLMChain (getChatModel s) (getMemory s)
                (promptOr (optPrompt options) (getChatPrompt s)) (optAbortController options)) s))"
  by (simp add: setChain_def validateChainType_def Let_def)

lemma setChain_plus:
  "registryValidate E (getChatModel s) \<Longrightarrow>
   setChain E (Mode COPILOT_PLUS_CHAIN) options s =
     (case fst (initializeQAChain E options s) of
        Throw e \<Rightarrow> (Throw e, snd (initializeQAChain E options s))
      | Return _ \<Rightarrow>
          (Return (),
           setChainType (Mode COPILOT_PLUS_CHAIN)
             (assignChain (createNewLLMChain (getChatModel s) (getMemory s)
                     (promptOr (optPrompt options) (getChatPrompt s))
                     (optAbortController options))
                (snd (initializeQAChain E options s)))))"
  by (simp add: setChain_def validateChainType_def Let_def split: prod.splits completion.splits)

lemma setChain_vault:
  "registryValidate E (getChatModel s) \<Longrightarrow>
   setChain E (Mode VAULT_QA_CHAIN) options s =
     (case fst (initializeQAChain E options s) of
        Throw e \<Rightarrow> (Throw e, snd (initializeQAChain E options s))
      | Return (e, d) \<Rightarrow>
          (let s1 = snd (initializeQAChain E options s);
               s3 = setChainType (Mode VAULT_QA_CHAIN)
                      (assignRetrievalChain (createConversationalRetrievalChain (getChatModel s)
                             (newHybridRetriever d (getChatModel s) e (maxSourceChunks s1) (debug s1))
                             (getSystemPrompt s1) (debug s1)) s1)
           in (Return (),
               if debug s1
               then consoleLog ''Set chain:'' [AChainType (Mode VAULT_QA_CHAIN)]
                      (consoleLog
                         ''New Vault QA chain with hybrid retriever created for entire vault''
                         [] s3)
               else s3)))"
  by (simp add: setChain_def validateChainType_def Let_def setChainType_def assignRetrievalChain_def
      split: prod.splits completion.splits)

lemma setChain_other:
  "registryValidate E (getChatModel s) \<Longrightarrow>
   setChain E Undefined options s = (Throw (Error ''No chain type set''), s)
   \<and> setChain E Null options s = (Throw (Error ''No chain type set''), s)
   \<and> setChain E (Unknown t) options s = (Return (), s)"
  by (simp add: setChain_def validateChainType_def Let_def)

lemma setChain_invalid:
  "\<not> registryValidate E (getChatModel s) \<Longrightarrow>
   setChain E chainType options s =
     (Return (), consoleError ''setChain failed: No chat model set.'' [] s)"
  by (simp add: setChain_def)

lemmas examples = exampleModel_def exampleEnv_def examplePrompt_def exampleState_def
  defaultOptions_def

lemma initializeQAChain_memory:
  "initializeQAChain E options (s\<lparr>memoryPairs := m\<rparr>) =
     (fst (initializeQAChain E options s), (snd (initializeQAChain E options s))\<lparr>memoryPairs := m\<rparr>)"
  by (simp add: initializeQAChain_def getters effects Let_def split: option.splits prod.splits)

lemma setChain_memory_valid:
  assumes "registryValidate E (getChatModel s)"
  shows "setChain E chainType options (s\<lparr>memoryPairs := m\<rparr>) =
       (fst (setChain E chainType options s), (snd (setChain E chainType options s))\<lparr>memoryPairs := m\<rparr>)"
proof -
  have v: "registryValidate E (getChatModel (s\<lparr>memoryPairs := m\<rparr>))"
    using assms by (simp add: getChatModel_def)
  show ?thesis
  proof (cases chainType)
    case Undefined
    then show ?thesis using setChain_other [OF v] setChain_other [OF assms] by simp
  next
    case Null
    then show ?thesis using setChain_other [OF v] setChain_other [OF assms] by simp
  next
    case (Unknown t)
    then show ?thesis using setChain_other [OF v] setChain_other [OF assms] by simp
  next
    case (Mode md)
    show ?thesis
    proof (cases md)
      case LLM_CHAIN
      then show ?thesis
        using Mode by (simp add: setChain_llm [OF v] setChain_llm [OF assms] getters setChainType_def assignChain_def assignRetrievalChain_def)
    next
      case VAULT_QA_CHAIN
      then show ?thesis
        using Mode
        by (simp add: setChain_vault [OF v] setChain_vault [OF assms] initializeQAChain_memory
            getters effects Let_def split: completion.splits prod.splits)
    next
      case COPILOT_PLUS_CHAIN
      then show ?thesis
        using Mode
        by (simp add: setChain_plus [OF v] setChain_plus [OF assms] initializeQAChain_memory
            getters effects split: completion.splits)
    qed
  qed
qed

lemma setChain_memory_independent:
  "setChain E chainType options (s\<lparr>memoryPairs := m\<rparr>) =
       (fst (setChain E chainType options s), (snd (setChain E chainType options s))\<lparr>memoryPairs := m\<rparr>)"
proof (cases "registryValidate E (getChatModel s)")
  case True
  then show ?thesis by (rule setChain_memory_valid)
next
  case False
  then have "\<not> registryValidate E (getChatModel (s\<lparr>memoryPairs := m\<rparr>))"
    by (simp add: getChatModel_def)
  with False show ?thesis by (simp add: setChain_invalid consoleError_def)
qed

section \<open>No usable chat model\<close>

text \<open>
  Claim C1, as the code has it. When the registry reports that the current chat model is not
  usable, \<^verbatim>\<open>setChain\<close> returns normally for every chain type and every options value: it
  writes one error line to the console, shows no notice, raises nothing, and leaves the active
  chain, the retrieval chain and the persisted chain type as they were.
\<close>

theorem setChain_no_model_returns:
  assumes "\<not> registryValidate E (getChatModel s)"
  shows "setChain E chainType options s =
           (Return (), consoleError ''setChain failed: No chat model set.'' [] s)
         \<and> notices (snd (setChain E chainType options s)) = notices s
         \<and> console (snd (setChain E chainType options s)) =
             console s @ [ConsoleError ''setChain failed: No chat model set.'' []]
         \<and> getChain (snd (setChain E chainType options s)) = getChain s
         \<and> getRetrievalChain (snd (setChain E chainType options s)) = getRetrievalChain s
         \<and> getChainType (snd (setChain E chainType options s)) = getChainType s"
  using assms by (simp add: setChain_def consoleError_def getters)

text \<open>The same on the example state without a chat model, in vault mode.\<close>

theorem setChain_no_model_returns_witness:
  "fst (setChain exampleEnv (Mode VAULT_QA_CHAIN) defaultOptions
          (exampleState\<lparr>currentChatModel := None\<rparr>)) = Return ()
   \<and> notices (snd (setChain exampleEnv (Mode VAULT_QA_CHAIN) defaultOptions
          (exampleState\<lparr>currentChatModel := None\<rparr>))) = []
   \<and> console (snd (setChain exampleEnv (Mode VAULT_QA_CHAIN) defaultOptions
          (exampleState\<lparr>currentChatModel := None\<rparr>))) =
        [ConsoleError ''setChain failed: No chat model set.'' []]"
  using setChain_no_model_returns [of exampleEnv "exampleState\<lparr>currentChatModel := None\<rparr>"
      "Mode VAULT_QA_CHAIN" defaultOptions]
  by (simp add: getters effects examples)

text \<open>
  As the claim is written it fails: without a chat model the call in plain chat mode returns
  normally and no notice is shown.
\<close>

theorem setChain_no_model_counterexample:
  "\<not> registryValidate exampleEnv (getChatModel (exampleState\<lparr>currentChatModel := None\<rparr>))
   \<and> fst (setChain exampleEnv (Mode LLM_CHAIN) defaultOptions
            (exampleState\<lparr>currentChatModel := None\<rparr>)) = Return ()
   \<and> notices (snd (setChain exampleEnv (Mode LLM_CHAIN) defaultOptions
            (exampleState\<lparr>currentChatModel := None\<rparr>))) = []"
  by (simp add: setChain_def consoleError_def getters examples)

section \<open>A chain type outside the enum\<close>

text \<open>
  Claim C2, as the code has it. For a chain type that is none of the three modes and neither
  null nor undefined, \<^verbatim>\<open>setChain\<close> returns normally, and with a usable chat model it changes
  nothing at all: the second \<^verbatim>\<open>validateChainType\<close> of the default branch tests for null
  and undefined only. The error "Unsupported chain type" is raised by \<^verbatim>\<open>getChainRunner\<close>,
  when the persisted chain type is such a value.
\<close>

theorem setChain_unknown_mode_no_effect:
  "fst (setChain E (Unknown t) options s) = Return ()
   \<and> (registryValidate E (getChatModel s) \<longrightarrow> setChain E (Unknown t) options s = (Return (), s))
   \<and> (getChainType s = Unknown t \<longrightarrow>
        getChainRunner s = Throw (Error (''Unsupported chain type: '' @ t)))"
  by (simp add: setChain_def validateChainType_def getChainRunner_def)

text \<open>The same for the value \<^verbatim>\<open>long_note_qa\<close> on the example state.\<close>

theorem setChain_unknown_mode_no_effect_witness:
  "setChain exampleEnv (Unknown ''long_note_qa'') defaultOptions
     (exampleState\<lparr>chainTypeSetting := Unknown ''long_note_qa''\<rparr>)
     = (Return (), exampleState\<lparr>chainTypeSetting := Unknown ''long_note_qa''\<rparr>)
   \<and> getChainRunner (exampleState\<lparr>chainTypeSetting := Unknown ''long_note_qa''\<rparr>)
     = Throw (Error ''Unsupported chain type: long_note_qa'')"
  using setChain_unknown_mode_no_effect [of exampleEnv "''long_note_qa''" defaultOptions
      "exampleState\<lparr>chainTypeSetting := Unknown ''long_note_qa''\<rparr>"]
  by (simp add: getters effects examples)

text \<open>
  As the claim is written it fails: with a usable chat model, \<^verbatim>\<open>setChain\<close> on the value
  \<^verbatim>\<open>long_note_qa\<close> returns normally and the state is the one before the call.
\<close>

theorem setChain_unknown_mode_counterexample:
  "registryValidate exampleEnv (getChatModel exampleState)
   \<and> setChain exampleEnv (Unknown ''long_note_qa'') defaultOptions exampleState
       = (Return (), exampleState)"
  by (simp add: setChain_def validateChainType_def getters examples)

section \<open>Vault mode without an embeddings handle\<close>

text \<open>
  Claim C4. When the embeddings provider has no embeddings handle, \<^verbatim>\<open>initializeQAChain\<close>
  raises "Error getting embeddings API" and changes nothing; \<^verbatim>\<open>setChain\<close> in vault mode, once
  past its chat model check, raises that error and changes nothing; and in every case the
  retrieval chain that \<^verbatim>\<open>getRetrievalChain\<close> returns after the call is the one from before.
\<close>

theorem setChain_vault_qa_no_embeddings:
  assumes "getEmbeddingsAPI s = None"
  shows "initializeQAChain E options s =
           (Throw (Error ''Error getting embeddings API. Please check your settings.''), s)
         \<and> (registryValidate E (getChatModel s) \<longrightarrow>
              setChain E (Mode VAULT_QA_CHAIN) options s =
                (Throw (Error ''Error getting embeddings API. Please check your settings.''), s))
         \<and> getRetrievalChain (snd (setChain E (Mode VAULT_QA_CHAIN) options s)) = getRetrievalChain s"
proof -
  have init: "initializeQAChain E options s =
           (Throw (Error ''Error getting embeddings API. Please check your settings.''), s)"
    using assms by (simp add: initializeQAChain_def)
  have raised: "registryValidate E (getChatModel s) \<Longrightarrow>
      setChain E (Mode VAULT_QA_CHAIN) options s =
        (Throw (Error ''Error getting embeddings API. Please check your settings.''), s)"
    by (simp add: setChain_vault init)
  have kept: "getRetrievalChain (snd (setChain E (Mode VAULT_QA_CHAIN) options s)) = getRetrievalChain s"
  proof (cases "registryValidate E (getChatModel s)")
    case True
    then show ?thesis by (simp add: raised)
  next
    case False
    then show ?thesis by (simp add: setChain_invalid consoleError_def getRetrievalChain_def)
  qed
  from init raised kept show ?thesis by blast
qed

text \<open>
  The same on the example state with a retrieval chain in place and no embeddings handle.
\<close>

theorem setChain_vault_qa_no_embeddings_witness:
  "setChain exampleEnv (Mode VAULT_QA_CHAIN) defaultOptions
     (exampleState\<lparr>embeddingsHandle := None, retrievalChain := Some exampleRetrievalChain\<rparr>)
     = (Throw (Error ''Error getting embeddings API. Please check your settings.''),
        exampleState\<lparr>embeddingsHandle := None, retrievalChain := Some exampleRetrievalChain\<rparr>)
   \<and> getRetrievalChain (snd (setChain exampleEnv (Mode VAULT_QA_CHAIN) defaultOptions
        (exampleState\<lparr>embeddingsHandle := None, retrievalChain := Some exampleRetrievalChain\<rparr>)))
     = Some exampleRetrievalChain"
  using setChain_vault_qa_no_embeddings [of
      "exampleState\<lparr>embeddingsHandle := None, retrievalChain := Some exampleRetrievalChain\<rparr>"
      exampleEnv defaultOptions]
  by (simp add: getters effects exampleEnv_def exampleState_def)

section \<open>The memory is outside \<^verbatim>\<open>setChain\<close>\<close>

text \<open>
  Claim C9. For every chain type and every options value, \<^verbatim>\<open>setChain\<close> leaves the pairs of
  the memory as they were, and it does not read them either: run on a state whose memory
  holds other pairs, it completes the same way and reaches the same state, but for those
  pairs.
\<close>

theorem setChain_memory_untouched:
  "memoryPairs (snd (setChain E chainType options s)) = memoryPairs s
   \<and> setChain E chainType options (s\<lparr>memoryPairs := m\<rparr>) =
       (fst (setChain E chainType options s), (snd (setChain E chainType options s))\<lparr>memoryPairs := m\<rparr>)"
proof -
  let ?p = "setChain E chainType options s"
  have "setChain E chainType options (s\<lparr>memoryPairs := memoryPairs s\<rparr>) =
       (fst ?p, (snd ?p)\<lparr>memoryPairs := memoryPairs s\<rparr>)"
    by (rule setChain_memory_independent)
  moreover have "s\<lparr>memoryPairs := memoryPairs s\<rparr> = s"
    by simp
  ultimately have "?p = (fst ?p, (snd ?p)\<lparr>memoryPairs := memoryPairs s\<rparr>)"
    by (simp only:)
  then have "snd ?p = snd (fst ?p, (snd ?p)\<lparr>memoryPairs := memoryPairs s\<rparr>)"
    by (rule arg_cong)
  then have "snd ?p = (snd ?p)\<lparr>memoryPairs := memoryPairs s\<rparr>"
    by (simp only: snd_conv)
  then have "memoryPairs (snd ?p) = memoryPairs ((snd ?p)\<lparr>memoryPairs := memoryPairs s\<rparr>)"
    by (rule arg_cong)
  then have "memoryPairs (snd ?p) = memoryPairs s"
    by simp
  with setChain_memory_independent show ?thesis by blast
qed

text \<open>The same on the example state, switching to the agentic mode.\<close>

theorem setChain_memory_untouched_witness:
  "memoryPairs (snd (setChain exampleEnv (Mode COPILOT_PLUS_CHAIN) defaultOptions exampleState))
     = [(''question'', ''answer'')]
   \<and> fst (setChain exampleEnv (Mode COPILOT_PLUS_CHAIN) defaultOptions exampleState) = Return ()"
  using setChain_memory_untouched [of exampleEnv "Mode COPILOT_PLUS_CHAIN" defaultOptions exampleState]
  by (simp add: setChain_plus initializeQAChain_def getters effects examples)

section \<open>The agentic mode\<close>

text \<open>
  Claim C8. Past the chat model check, \<^verbatim>\<open>setChain\<close> in the agentic mode runs the index
  step of the vault mode: both complete the same way (normally, or with the same error), and
  both leave the index handle and the number of reindex runs that \<^verbatim>\<open>initializeQAChain\<close>
  leaves. The step succeeds exactly when there is an embeddings handle and the index is loaded
  or can be opened; it opens the index only when none is loaded, and it reindexes once
  exactly when \<^verbatim>\<open>refreshIndex\<close> is set. When it succeeds, the active chain is the plain
  pipeline built from the current model, the memory and the prompt (the prompt of the
  options, when they carry one), and the persisted chain type is the agentic mode.
\<close>

theorem setChain_copilot_plus:
  assumes "registryValidate E (getChatModel s)"
  shows "(let plus = setChain E (Mode COPILOT_PLUS_CHAIN) options s;
              qa = setChain E (Mode VAULT_QA_CHAIN) options s;
              ready = initializeQAChain E options s
          in fst plus = fst qa
             \<and> getDb (snd plus) = getDb (snd ready) \<and> getDb (snd qa) = getDb (snd ready)
             \<and> indexRuns (snd plus) = indexRuns (snd ready)
             \<and> indexRuns (snd qa) = indexRuns (snd ready)
             \<and> (fst plus = Return () \<longleftrightarrow>
                  getEmbeddingsAPI s \<noteq> None \<and> (getDb s \<noteq> None \<or> initializeDBResult E \<noteq> None))
             \<and> (fst plus = Return () \<longrightarrow>
                  getDb (snd plus) = (if getDb s = None then initializeDBResult E else getDb s)
                  \<and> indexRuns (snd plus) =
                      (if refreshIndex options then Suc (indexRuns s) else indexRuns s)
                  \<and> getChain (snd plus) =
                      Some (createNewLLMChain (getChatModel s) (getMemory s)
                              (promptOr (optPrompt options) (getChatPrompt s))
                              (optAbortController options))
                  \<and> getChainType (snd plus) = Mode COPILOT_PLUS_CHAIN))"
proof -
  let ?ready = "initializeQAChain E options s"
  show ?thesis
  proof (cases "fst ?ready")
    case (Throw e)
    then show ?thesis
      using initializeQAChain_result [of E options s]
      by (auto simp add: Let_def setChain_plus [OF assms] setChain_vault [OF assms]
          split: option.splits if_splits)
  next
    case (Return p)
    obtain e d where p: "p = (e, d)" by (cases p)
    from Return p have r: "fst ?ready = Return (e, d)" by simp
    note idx = initializeQAChain_index [OF r]
    from r idx show ?thesis
      using initializeQAChain_result [of E options s]
      by (auto simp add: Let_def setChain_plus [OF assms] setChain_vault [OF assms]
          getters effects split: option.splits if_splits)
  qed
qed

text \<open>The same on the example state, with a reindex asked for.\<close>

theorem setChain_copilot_plus_witness:
  "fst (setChain exampleEnv (Mode COPILOT_PLUS_CHAIN)
          \<lparr>optPrompt = None, optAbortController = None, refreshIndex = True\<rparr> exampleState) = Return ()
   \<and> getDb (snd (setChain exampleEnv (Mode COPILOT_PLUS_CHAIN)
          \<lparr>optPrompt = None, optAbortController = None, refreshIndex = True\<rparr> exampleState))
       = Some (Orama 1)
   \<and> indexRuns (snd (setChain exampleEnv (Mode COPILOT_PLUS_CHAIN)
          \<lparr>optPrompt = None, optAbortController = None, refreshIndex = True\<rparr> exampleState)) = 1
   \<and> getChain (snd (setChain exampleEnv (Mode COPILOT_PLUS_CHAIN)
          \<lparr>optPrompt = None, optAbortController = None, refreshIndex = True\<rparr> exampleState))
       = Some \<lparr>llm = Some \<lparr>modelName = Some ''gpt-4o'', model = None\<rparr>,
               memoryRef = MemoryInstance, prompt = examplePrompt, abortController = None\<rparr>
   \<and> getChainType (snd (setChain exampleEnv (Mode COPILOT_PLUS_CHAIN)
          \<lparr>optPrompt = None, optAbortController = None, refreshIndex = True\<rparr> exampleState))
       = Mode COPILOT_PLUS_CHAIN"
  using setChain_copilot_plus [of exampleEnv exampleState
      "\<lparr>optPrompt = None, optAbortController = None, refreshIndex = True\<rparr>"]
  by (simp add: Let_def setChain_plus initializeQAChain_def getters effects exampleEnv_def
      exampleState_def exampleModel_def createNewLLMChain_def promptOr_def)

section \<open>The persisted chain type is written last\<close>

text \<open>
  Claim C10. To the journal of its writes a call of \<^verbatim>\<open>setChain\<close> adds either nothing or
  exactly two entries: first the assignment of the pipeline of the requested mode, which
  stands assigned after the call, then the persisting of that mode. So the chain type is
  persisted only after the pipeline has been built and assigned. On every early exit (no
  usable chat model, a null or undefined chain type, an error raised on the way) nothing is
  written: the active chain, the retrieval chain and the persisted chain type are the ones
  from before the call. The persisted chain type differs after the call only when the call
  returned normally, and it is then the requested one. Whenever a call for a mode returns
  normally past the chat model check, the persisted chain type is that mode and the
  pipeline of that mode stands assigned.
\<close>

theorem setChain_persists_mode_last:
  "(let r = fst (setChain E chainType options s); s' = snd (setChain E chainType options s)
    in ((\<not> registryValidate E (getChatModel s) \<or> chainType = Undefined \<or> chainType = Null
          \<or> r \<noteq> Return ())
         \<longrightarrow> getChain s' = getChain s \<and> getRetrievalChain s' = getRetrievalChain s
             \<and> getChainType s' = getChainType s \<and> writes s' = writes s)
       \<and> (getChainType s' \<noteq> getChainType s
         \<longrightarrow> r = Return () \<and> getChainType s' = chainType)
       \<and> (\<forall>m. registryValidate E (getChatModel s) \<and> chainType = Mode m \<and> r = Return ()
         \<longrightarrow> getChainType s' = Mode m \<and> pipelineAssigned m options s s')
       \<and> (writes s' = writes s
            \<or> (\<exists>m w. chainType = Mode m \<and> r = Return () \<and> isPipelineWrite m s' w
                  \<and> pipelineAssigned m options s s'
                  \<and> writes s' = writes s @ [w, ChainTypePersisted (Mode m)])))"
proof (cases "registryValidate E (getChatModel s)")
  case False
  then show ?thesis
    by (simp add: setChain_invalid Let_def consoleError_def getters)
next
  case True
  show ?thesis
  proof (cases chainType)
    case Undefined
    then show ?thesis using setChain_other [OF True] by (simp add: Let_def)
  next
    case Null
    then show ?thesis using setChain_other [OF True] by (simp add: Let_def)
  next
    case (Unknown t)
    then show ?thesis using setChain_other [OF True] by (simp add: Let_def)
  next
    case (Mode md)
    show ?thesis
    proof (cases md)
      case LLM_CHAIN
      then show ?thesis
        using Mode True
        by (simp add: setChain_llm [OF True] Let_def pipelineAssigned_def isPipelineWrite_def getters
            effects)
    next
      case COPILOT_PLUS_CHAIN
      then show ?thesis
        using Mode True initializeQAChain_frame [of E options s]
        by (auto simp add: setChain_plus [OF True] Let_def pipelineAssigned_def isPipelineWrite_def
            getters effects split: completion.splits)
    next
      case VAULT_QA_CHAIN
      show ?thesis
      proof (cases "fst (initializeQAChain E options s)")
        case (Throw e)
        then show ?thesis
          using Mode VAULT_QA_CHAIN True initializeQAChain_frame [of E options s]
          by (simp add: setChain_vault [OF True] Let_def getters)
      next
        case (Return p)
        obtain e d where p: "p = (e, d)" by (cases p)
        from Return p have r: "fst (initializeQAChain E options s) = Return (e, d)" by simp
        note idx = initializeQAChain_index [OF r]
        from r idx show ?thesis
          using Mode VAULT_QA_CHAIN True initializeQAChain_frame [of E options s]
          by (simp add: setChain_vault [OF True] Let_def pipelineAssigned_def isPipelineWrite_def
              getters effects)
      qed
    qed
  qed
qed

text \<open>
  The same on the example state in vault mode: without an embeddings handle nothing is
  written, with one the retrieval pipeline is assigned and then the mode persisted.
\<close>

theorem setChain_persists_mode_last_witness:
  "fst (setChain exampleEnv (Mode VAULT_QA_CHAIN) defaultOptions
          (exampleState\<lparr>embeddingsHandle := None\<rparr>))
     = Throw (Error ''Error getting embeddings API. Please check your settings.'')
   \<and> getChainType (snd (setChain exampleEnv (Mode VAULT_QA_CHAIN) defaultOptions
          (exampleState\<lparr>embeddingsHandle := None\<rparr>))) = Mode LLM_CHAIN
   \<and> getChain (snd (setChain exampleEnv (Mode VAULT_QA_CHAIN) defaultOptions
          (exampleState\<lparr>embeddingsHandle := None\<rparr>))) = None
   \<and> getRetrievalChain (snd (setChain exampleEnv (Mode VAULT_QA_CHAIN) defaultOptions
          (exampleState\<lparr>embeddingsHandle := None\<rparr>))) = None
   \<and> writes (snd (setChain exampleEnv (Mode VAULT_QA_CHAIN) defaultOptions
          (exampleState\<lparr>embeddingsHandle := None\<rparr>))) = []
   \<and> fst (setChain exampleEnv (Mode VAULT_QA_CHAIN) defaultOptions exampleState) = Return ()
   \<and> getChainType (snd (setChain exampleEnv (Mode VAULT_QA_CHAIN) defaultOptions exampleState))
       = Mode VAULT_QA_CHAIN
   \<and> pipelineAssigned VAULT_QA_CHAIN defaultOptions exampleState
        (snd (setChain exampleEnv (Mode VAULT_QA_CHAIN) defaultOptions exampleState))
   \<and> (\<exists>w. isPipelineWrite VAULT_QA_CHAIN
               (snd (setChain exampleEnv (Mode VAULT_QA_CHAIN) defaultOptions exampleState)) w
          \<and> writes (snd (setChain exampleEnv (Mode VAULT_QA_CHAIN) defaultOptions exampleState))
              = [w, ChainTypePersisted (Mode VAULT_QA_CHAIN)])"
proof -
  let ?bad = "setChain exampleEnv (Mode VAULT_QA_CHAIN) defaultOptions
          (exampleState\<lparr>embeddingsHandle := None\<rparr>)"
  let ?good = "setChain exampleEnv (Mode VAULT_QA_CHAIN) defaultOptions exampleState"
  have valid: "registryValidate exampleEnv (getChatModel exampleState)"
    by (simp add: getters examples)
  have valid': "registryValidate exampleEnv (getChatModel (exampleState\<lparr>embeddingsHandle := None\<rparr>))"
    by (simp add: getters examples)
  have failing: "fst ?bad
     = Throw (Error ''Error getting embeddings API. Please check your settings.'')"
    by (subst setChain_vault [OF valid']) (simp add: initializeQAChain_def getters)
  have passing: "fst ?good = Return ()"
    by (subst setChain_vault [OF valid])
      (simp add: initializeQAChain_def getters effects Let_def examples)
  note bad = setChain_persists_mode_last [of exampleEnv "Mode VAULT_QA_CHAIN" defaultOptions
      "exampleState\<lparr>embeddingsHandle := None\<rparr>"]
  note good = setChain_persists_mode_last [of exampleEnv "Mode VAULT_QA_CHAIN" defaultOptions
      exampleState]
  have raised: "fst ?bad \<noteq> Return ()"
    using failing by simp
  have same: "getChain (snd ?bad) = getChain (exampleState\<lparr>embeddingsHandle := None\<rparr>)
      \<and> getRetrievalChain (snd ?bad) = getRetrievalChain (exampleState\<lparr>embeddingsHandle := None\<rparr>)
      \<and> getChainType (snd ?bad) = getChainType (exampleState\<lparr>embeddingsHandle := None\<rparr>)
      \<and> writes (snd ?bad) = writes (exampleState\<lparr>embeddingsHandle := None\<rparr>)"
    using bad raised unfolding Let_def by blast
  have kept: "getChainType (snd ?bad) = Mode LLM_CHAIN \<and> getChain (snd ?bad) = None
      \<and> getRetrievalChain (snd ?bad) = None \<and> writes (snd ?bad) = []"
    by (simp only: same) (simp add: getters exampleState_def)
  have set: "getChainType (snd ?good) = Mode VAULT_QA_CHAIN
      \<and> pipelineAssigned VAULT_QA_CHAIN defaultOptions exampleState (snd ?good)"
    using good passing valid unfolding Let_def by blast
  have written: "writes (snd ?good) \<noteq> writes exampleState"
    by (subst setChain_vault [OF valid])
      (simp add: initializeQAChain_def getters effects Let_def examples)
  have "\<exists>m w. Mode VAULT_QA_CHAIN = Mode m \<and> isPipelineWrite m (snd ?good) w
      \<and> writes (snd ?good) = writes exampleState @ [w, ChainTypePersisted (Mode m)]"
    using good written unfolding Let_def by blast
  then obtain m w where m: "Mode VAULT_QA_CHAIN = Mode m"
    and w: "isPipelineWrite m (snd ?good) w"
    and j: "writes (snd ?good) = writes exampleState @ [w, ChainTypePersisted (Mode m)]"
    by blast
  from m have m': "m = VAULT_QA_CHAIN" by simp
  have empty: "writes exampleState = []"
    by (simp add: exampleState_def)
  from w j have journal: "\<exists>w. isPipelineWrite VAULT_QA_CHAIN (snd ?good) w
          \<and> writes (snd ?good) = [w, ChainTypePersisted (Mode VAULT_QA_CHAIN)]"
    unfolding m' empty by auto
  from failing passing kept set journal show ?thesis by blast
qed

section \<open>Replaying a transcript\<close>

lemma replayFrom_commits:
  "replayFrom E messages i s =
     s\<lparr>memoryPairs := memoryPairs s @ committedPairs E (drop i messages)\<rparr>"
proof (induction E messages i s rule: replayFrom.induct)
  case (1 E messages i s)
  show ?case
  proof (cases "i < length messages")
    case False
    then show ?thesis by (subst replayFrom.simps) simp
  next
    case True
    note inside = True
    show ?thesis
    proof (cases "i + 1 < length messages")
      case False
      with inside have d: "drop i messages = [messages ! i]"
        by (metis Cons_nth_drop_Suc Suc_eq_plus1 drop_all linorder_not_less)
      have "replayFrom E messages (i + 2) s =
          s\<lparr>memoryPairs := memoryPairs s @ committedPairs E (drop (i + 2) messages)\<rparr>"
        using "1.IH" [OF inside refl refl] False by simp
      with False inside d show ?thesis
        by (subst replayFrom.simps) simp
    next
      case True
      have d: "drop i messages = messages ! i # messages ! (i + 1) # drop (i + 2) messages"
        using True inside
        by (metis Cons_nth_drop_Suc Suc_eq_plus1 add_2_eq_Suc')
      show ?thesis
        using "1.IH" [OF inside refl refl] True inside
        by (subst replayFrom.simps) (simp add: d saveContext_def Let_def)
    qed
  qed
qed

lemma committedPairs_index:
  "committedPairs E messages =
     map (\<lambda>k. (message (messages ! (2 * k)), message (messages ! (2 * k + 1))))
       (filter (\<lambda>k. sender (messages ! (2 * k)) = USER_SENDER E) [0..<length messages div 2])"
proof (induction E messages rule: committedPairs.induct)
  case (1 E u a rest)
  have up: "[0..<Suc (length rest div 2)] = 0 # map Suc [0..<length rest div 2]"
    by (simp add: upt_conv_Cons map_Suc_upt del: upt_Suc)
  show ?case
    using 1
    by (simp add: up filter_map comp_def del: upt_Suc)
qed simp_all

text \<open>
  Claim C3. For every list of messages, \<^verbatim>\<open>updateMemoryWithLoadedMessages\<close> returns normally
  and leaves in memory, whatever it held before, exactly the pairs read off the list two
  entries at a time: pair number \<^verbatim>\<open>k\<close> (entries \<^verbatim>\<open>2k\<close> and \<^verbatim>\<open>2k+1\<close>) is committed if and
  only if both entries exist and entry \<^verbatim>\<open>2k\<close> is the user's; every other pair is skipped.
  A user message "hi" followed by an assistant message "hello" gives the one pair
  ("hi", "hello"), and a single user message gives an empty memory.
\<close>

theorem updateMemoryWithLoadedMessages_pairs:
  "updateMemoryWithLoadedMessages E messages s =
     (Return (), s\<lparr>memoryPairs := committedPairs E messages\<rparr>)
   \<and> committedPairs E messages =
       map (\<lambda>k. (message (messages ! (2 * k)), message (messages ! (2 * k + 1))))
         (filter (\<lambda>k. sender (messages ! (2 * k)) = USER_SENDER E) [0..<length messages div 2])
   \<and> memoryPairs (snd (updateMemoryWithLoadedMessages E
         [\<lparr>sender = USER_SENDER E, message = ''hi''\<rparr>, \<lparr>sender = AI_SENDER E, message = ''hello''\<rparr>] s))
       = [(''hi'', ''hello'')]
   \<and> memoryPairs (snd (updateMemoryWithLoadedMessages E
         [\<lparr>sender = USER_SENDER E, message = ''hi''\<rparr>] s)) = []"
proof -
  have run: "\<And>ms. updateMemoryWithLoadedMessages E ms s =
     (Return (), s\<lparr>memoryPairs := committedPairs E ms\<rparr>)"
    by (simp add: updateMemoryWithLoadedMessages_def replayFrom_commits clearChatMemory_def)
  show ?thesis
    unfolding run using committedPairs_index [of E messages] by simp
qed

text \<open>
  The same on a transcript of five entries: one good pair, one pair that starts with the
  assistant, and one user entry without partner.
\<close>

theorem updateMemoryWithLoadedMessages_pairs_witness:
  "memoryPairs (snd (updateMemoryWithLoadedMessages exampleEnv
      [\<lparr>sender = ''user'', message = ''hi''\<rparr>, \<lparr>sender = ''ai'', message = ''hello''\<rparr>,
       \<lparr>sender = ''ai'', message = ''stray''\<rparr>, \<lparr>sender = ''user'', message = ''late''\<rparr>,
       \<lparr>sender = ''user'', message = ''alone''\<rparr>] exampleState))
     = [(''hi'', ''hello'')]
   \<and> fst (updateMemoryWithLoadedMessages exampleEnv
      [\<lparr>sender = ''user'', message = ''hi''\<rparr>, \<lparr>sender = ''ai'', message = ''hello''\<rparr>,
       \<lparr>sender = ''ai'', message = ''stray''\<rparr>, \<lparr>sender = ''user'', message = ''late''\<rparr>,
       \<lparr>sender = ''user'', message = ''alone''\<rparr>] exampleState) = Return ()"
proof -
  let ?ms = "[\<lparr>sender = ''user'', message = ''hi''\<rparr>, \<lparr>sender = ''ai'', message = ''hello''\<rparr>,
       \<lparr>sender = ''ai'', message = ''stray''\<rparr>, \<lparr>sender = ''user'', message = ''late''\<rparr>,
       \<lparr>sender = ''user'', message = ''alone''\<rparr>]"
  have "updateMemoryWithLoadedMessages exampleEnv ?ms exampleState =
      (Return (), exampleState\<lparr>memoryPairs := committedPairs exampleEnv ?ms\<rparr>)"
    using updateMemoryWithLoadedMessages_pairs [of exampleEnv ?ms exampleState]
    by (rule conjunct1)
  moreover have "committedPairs exampleEnv ?ms = [(''hi'', ''hello'')]"
    by (simp add: exampleEnv_def)
  ultimately show ?thesis by simp
qed

section \<open>Looking a model up by its key\<close>

lemma split_on_segment:
  "c \<notin> set n \<Longrightarrow> split_on c (n @ c # rest) = n # split_on c rest"
  by (induction n) auto

lemma split_on_last:
  "c \<notin> set p \<Longrightarrow> split_on c p = [p]"
  by (induction p) auto

lemma keyMatches_composite:
  assumes "CHR ''|'' \<notin> set n" and "CHR ''|'' \<notin> set p"
  shows "keyMatches (n @ ''|'' @ p) m \<longleftrightarrow> name m = n \<and> provider m = p"
  using assms
  by (auto simp add: keyMatches_def keyName_def keyProvider_def split_on_segment split_on_last)

lemma find_first_match:
  "\<forall>x \<in> set pre. \<not> P x \<Longrightarrow> P m \<Longrightarrow> find P (pre @ m # post) = Some m"
  by (induction pre) auto

lemma find_no_match:
  "\<forall>x \<in> set xs. \<not> P x \<Longrightarrow> find P xs = None"
  by (induction xs) auto

text \<open>
  Claim C7, as the code has it. Both lookups split the key at the bar and return the first
  model, in the order of the active models, whose name and provider match; what follows that
  model in the list plays no role, so a second model with the same name and provider is never
  noticed. They fail only when no model matches: the lookup of \<^verbatim>\<open>utils.ts\<close> raises
  "No model configuration found", the one of the chain manager returns nothing. For a name
  and a provider without a bar, the key "name|provider" matches a model exactly when the
  model has that name and that provider.
\<close>

theorem findCustomModel_first_match:
  "(activeModels s = pre @ m # post \<and> keyMatches modelKey m \<and> (\<forall>x \<in> set pre. \<not> keyMatches modelKey x)
      \<longrightarrow> findCustomModel modelKey s = Some m
          \<and> utils_findCustomModel modelKey (activeModels s) = Return m)
   \<and> ((\<forall>x \<in> set (activeModels s). \<not> keyMatches modelKey x)
      \<longrightarrow> findCustomModel modelKey s = None
          \<and> utils_findCustomModel modelKey (activeModels s) =
              Throw (Error (''No model configuration found for: '' @ modelKey)))
   \<and> (CHR ''|'' \<notin> set n \<and> CHR ''|'' \<notin> set p
      \<longrightarrow> (keyMatches (n @ ''|'' @ p) m \<longleftrightarrow> name m = n \<and> provider m = p))"
  using keyMatches_composite [of n p m]
  by (auto simp add: findCustomModel_def utils_findCustomModel_def find_first_match find_no_match)

text \<open>
  The same on two active models with one key, the proxied one first, and on a key without
  provider.
\<close>

theorem findCustomModel_first_match_witness:
  "findCustomModel ''gpt-4o|openai'' (exampleState\<lparr>activeModels := [proxyModel, exampleModel]\<rparr>)
       = Some proxyModel
   \<and> utils_findCustomModel ''gpt-4o|openai''
        (activeModels (exampleState\<lparr>activeModels := [proxyModel, exampleModel]\<rparr>)) = Return proxyModel
   \<and> findCustomModel ''gpt-4o'' exampleState = None
   \<and> utils_findCustomModel ''gpt-4o'' (activeModels exampleState)
       = Throw (Error ''No model configuration found for: gpt-4o'')"
proof -
  have key: "keyMatches ''gpt-4o|openai'' proxyModel"
    by (simp add: keyMatches_def keyName_def keyProvider_def proxyModel_def)
  have nokey: "\<forall>x \<in> set (activeModels exampleState). \<not> keyMatches ''gpt-4o'' x"
    by (simp add: keyMatches_def keyName_def keyProvider_def exampleModel_def exampleState_def)
  have models: "activeModels (exampleState\<lparr>activeModels := [proxyModel, exampleModel]\<rparr>)
      = [] @ proxyModel # [exampleModel]"
    by simp
  from key models nokey
    findCustomModel_first_match [of "exampleState\<lparr>activeModels := [proxyModel, exampleModel]\<rparr>"
      "[]" proxyModel "[exampleModel]" "''gpt-4o|openai''"]
    findCustomModel_first_match [of exampleState _ _ _ "''gpt-4o''"]
  show ?thesis by simp
qed

text \<open>
  As the claim is written it fails: two different active models carry the key
  \<^verbatim>\<open>gpt-4o|openai\<close>, and both lookups return the first of them without failing.
\<close>

theorem findCustomModel_duplicate_counterexample:
  "exampleModel \<noteq> proxyModel
   \<and> keyMatches ''gpt-4o|openai'' exampleModel \<and> keyMatches ''gpt-4o|openai'' proxyModel
   \<and> findCustomModel ''gpt-4o|openai'' (exampleState\<lparr>activeModels := [exampleModel, proxyModel]\<rparr>)
       = Some exampleModel
   \<and> utils_findCustomModel ''gpt-4o|openai'' [exampleModel, proxyModel] = Return exampleModel"
  by (simp add: findCustomModel_def utils_findCustomModel_def keyMatches_def keyName_def
      keyProvider_def exampleModel_def proxyModel_def exampleState_def)

section \<open>What \<^verbatim>\<open>setChain\<close> leaves alone\<close>

lemma initializeQAChain_console:
  "\<exists>extra. console (snd (initializeQAChain E options s)) = console s @ extra"
  by (simp add: initializeQAChain_def getters effects Let_def split: option.splits prod.splits)

lemma setChain_frame:
  "currentChatModel (snd (setChain E chainType options s)) = currentChatModel s
   \<and> systemPromptSetting (snd (setChain E chainType options s)) = systemPromptSetting s
   \<and> notices (snd (setChain E chainType options s)) = notices s
   \<and> currentChatPrompt (snd (setChain E chainType options s)) = currentChatPrompt s
   \<and> (\<exists>extra. console (snd (setChain E chainType options s)) = console s @ extra)"
proof (cases "registryValidate E (getChatModel s)")
  case False
  then show ?thesis by (simp add: setChain_invalid consoleError_def)
next
  case True
  show ?thesis
  proof (cases chainType)
    case Undefined
    then show ?thesis using setChain_other [OF True] by simp
  next
    case Null
    then show ?thesis using setChain_other [OF True] by simp
  next
    case (Unknown t)
    then show ?thesis using setChain_other [OF True] by simp
  next
    case (Mode md)
    show ?thesis
    proof (cases md)
      case LLM_CHAIN
      then show ?thesis using Mode by (simp add: setChain_llm [OF True] setChainType_def assignChain_def assignRetrievalChain_def)
    next
      case VAULT_QA_CHAIN
      then show ?thesis
        using Mode initializeQAChain_frame [of E options s] initializeQAChain_console [of E options s]
        by (auto simp add: setChain_vault [OF True] effects Let_def split: completion.splits)
    next
      case COPILOT_PLUS_CHAIN
      then show ?thesis
        using Mode initializeQAChain_frame [of E options s] initializeQAChain_console [of E options s]
        by (auto simp add: setChain_plus [OF True] effects split: completion.splits)
    qed
  qed
qed


lemma initializeQAChain_changes:
  "\<exists>d n c. snd (initializeQAChain E options s) = s\<lparr>dbHandle := d, indexRuns := n, console := c\<rparr>"
proof -
  have "snd (initializeQAChain E options s) =
      s\<lparr>dbHandle := dbHandle (snd (initializeQAChain E options s)),
        indexRuns := indexRuns (snd (initializeQAChain E options s)),
        console := console (snd (initializeQAChain E options s))\<rparr>"
    by (simp add: initializeQAChain_def getters effects Let_def split: option.splits prod.splits)
  then show ?thesis by blast
qed

lemma initializeQAChain_console_independent:
  "fst (initializeQAChain E options (s\<lparr>console := c\<rparr>)) = fst (initializeQAChain E options s)
   \<and> dbHandle (snd (initializeQAChain E options (s\<lparr>console := c\<rparr>)))
       = dbHandle (snd (initializeQAChain E options s))
   \<and> indexRuns (snd (initializeQAChain E options (s\<lparr>console := c\<rparr>)))
       = indexRuns (snd (initializeQAChain E options s))"
  by (simp add: initializeQAChain_def getters effects Let_def split: option.splits prod.splits)

lemma initializeQAChain_console_forms:
  "\<exists>d n k k'.
     snd (initializeQAChain E options s) = s\<lparr>dbHandle := d, indexRuns := n, console := k\<rparr>
     \<and> snd (initializeQAChain E options (s\<lparr>console := c\<rparr>))
         = s\<lparr>dbHandle := d, indexRuns := n, console := k'\<rparr>"
proof -
  obtain d n k where a: "snd (initializeQAChain E options s) = s\<lparr>dbHandle := d, indexRuns := n, console := k\<rparr>"
    using initializeQAChain_changes by blast
  obtain d' n' k' where b: "snd (initializeQAChain E options (s\<lparr>console := c\<rparr>))
      = s\<lparr>console := c, dbHandle := d', indexRuns := n', console := k'\<rparr>"
    using initializeQAChain_changes [of E options "s\<lparr>console := c\<rparr>"] by blast
  from a b initializeQAChain_console_independent [of E options c s]
  have "d' = d \<and> n' = n" by simp
  with b have "snd (initializeQAChain E options (s\<lparr>console := c\<rparr>))
      = s\<lparr>dbHandle := d, indexRuns := n, console := k'\<rparr>"
    by simp
  with a show ?thesis by blast
qed

lemma setChain_console_independent:
  "fst (setChain E chainType options (s\<lparr>console := c\<rparr>)) = fst (setChain E chainType options s)
   \<and> (snd (setChain E chainType options (s\<lparr>console := c\<rparr>)))\<lparr>console := []\<rparr>
       = (snd (setChain E chainType options s))\<lparr>console := []\<rparr>"
proof (cases "registryValidate E (getChatModel s)")
  case False
  then have "\<not> registryValidate E (getChatModel (s\<lparr>console := c\<rparr>))"
    by (simp add: getChatModel_def)
  with False show ?thesis by (simp add: setChain_invalid consoleError_def)
next
  case True
  then have v: "registryValidate E (getChatModel (s\<lparr>console := c\<rparr>))"
    by (simp add: getChatModel_def)
  have same: "fst (initializeQAChain E options (s\<lparr>console := c\<rparr>)) = fst (initializeQAChain E options s)"
    using initializeQAChain_console_independent by blast
  obtain d n k k' where
    a: "snd (initializeQAChain E options s) = s\<lparr>dbHandle := d, indexRuns := n, console := k\<rparr>"
    and b: "snd (initializeQAChain E options (s\<lparr>console := c\<rparr>))
         = s\<lparr>dbHandle := d, indexRuns := n, console := k'\<rparr>"
    using initializeQAChain_console_forms by blast
  show ?thesis
  proof (cases chainType)
    case Undefined
    then show ?thesis using setChain_other [OF v] setChain_other [OF True] by simp
  next
    case Null
    then show ?thesis using setChain_other [OF v] setChain_other [OF True] by simp
  next
    case (Unknown t)
    then show ?thesis using setChain_other [OF v] setChain_other [OF True] by simp
  next
    case (Mode md)
    show ?thesis
    proof (cases md)
      case LLM_CHAIN
      then show ?thesis
        using Mode by (simp add: setChain_llm [OF v] setChain_llm [OF True] getters setChainType_def assignChain_def assignRetrievalChain_def)
    next
      case COPILOT_PLUS_CHAIN
      show ?thesis
        unfolding Mode COPILOT_PLUS_CHAIN setChain_plus [OF v] setChain_plus [OF True] same a b
        by (simp add: getters setChainType_def assignChain_def assignRetrievalChain_def split: completion.splits)
    next
      case VAULT_QA_CHAIN
      show ?thesis
        unfolding Mode VAULT_QA_CHAIN setChain_vault [OF v] setChain_vault [OF True] same a b
        by (simp add: getters effects Let_def split: completion.splits prod.splits)
    qed
  qed
qed


section \<open>Falling back to the built-in model\<close>

text \<open>
  Claim C5. When the model key resolves to no active model, \<^verbatim>\<open>createChainWithNewModel\<close>
  returns normally, whatever \<^verbatim>\<open>setChain\<close> does. When the table of built-in models has a first
  entry, the registry then holds the handle of that entry; apart from the console, the state
  is the one \<^verbatim>\<open>setChain\<close> reaches, for the configured chain type and default options, from
  the state with that handle; and the console keeps its earlier lines and holds the line
  "Resetting default model" with the key and the line "Setting model to" with the key of the
  built-in entry.
\<close>

theorem createChainWithNewModel_falls_back:
  assumes "findCustomModel (getModelKey s) s = None"
  shows "fst (createChainWithNewModel E s) = Return ()
    \<and> (\<forall>d rest. BUILTIN_CHAT_MODELS E = d # rest \<longrightarrow>
         getChatModel (snd (createChainWithNewModel E s)) = Some (registryInstantiate E d)
         \<and> (snd (createChainWithNewModel E s))\<lparr>console := []\<rparr> =
             (snd (setChain E (getChainType s) defaultOptions (setChatModel E d s)))\<lparr>console := []\<rparr>
         \<and> ConsoleError ''Resetting default model. No model configuration found for: ''
               [AStr (getModelKey s)] \<in> set (console (snd (createChainWithNewModel E s)))
         \<and> ConsoleLog (''Setting model to '' @ name d @ ''|'' @ provider d) []
               \<in> set (console (snd (createChainWithNewModel E s)))
         \<and> (\<exists>extra. console (snd (createChainWithNewModel E s)) = console s @ extra))"
proof -
  have ret: "fst (createChainWithNewModel E s) = Return ()"
    by (simp add: createChainWithNewModel_def Let_def split: option.splits list.splits sum.splits prod.splits)
  have fb: "\<And>d rest. BUILTIN_CHAT_MODELS E = d # rest \<Longrightarrow>
      snd (createChainWithNewModel E s) =
             consoleLog (''Setting model to '' @ name d @ ''|'' @ provider d) []
               (snd (setChain E (getChainType s) defaultOptions
                  (setChatModel E d
                     (consoleError ''Resetting default model. No model configuration found for: ''
                        [AStr (getModelKey s)] s))))"
    using assms
    by (simp add: createChainWithNewModel_def Let_def getChainType_def setChatModel_def consoleError_def)
  have model: "\<And>d rest. BUILTIN_CHAT_MODELS E = d # rest \<Longrightarrow>
      getChatModel (snd (createChainWithNewModel E s)) = Some (registryInstantiate E d)"
    using setChain_frame
    by (simp add: fb getChatModel_def consoleLog_def setChatModel_def consoleError_def)
  have state: "\<And>d rest. BUILTIN_CHAT_MODELS E = d # rest \<Longrightarrow>
      (snd (createChainWithNewModel E s))\<lparr>console := []\<rparr> =
        (snd (setChain E (getChainType s) defaultOptions (setChatModel E d s)))\<lparr>console := []\<rparr>"
  proof -
    fix d rest
    assume b: "BUILTIN_CHAT_MODELS E = d # rest"
    have order: "setChatModel E d
                     (consoleError ''Resetting default model. No model configuration found for: ''
                        [AStr (getModelKey s)] s)
        = (setChatModel E d s)\<lparr>console := console s
             @ [ConsoleError ''Resetting default model. No model configuration found for: ''
                  [AStr (getModelKey s)]]\<rparr>"
      by (simp add: setChatModel_def consoleError_def)
    show "(snd (createChainWithNewModel E s))\<lparr>console := []\<rparr> =
        (snd (setChain E (getChainType s) defaultOptions (setChatModel E d s)))\<lparr>console := []\<rparr>"
      unfolding fb [OF b] order
      using setChain_console_independent [of E "getChainType s" defaultOptions _ "setChatModel E d s"]
      by (simp add: consoleLog_def)
  qed
  have logs: "\<And>d rest. BUILTIN_CHAT_MODELS E = d # rest \<Longrightarrow>
      \<exists>extra. console (snd (createChainWithNewModel E s)) =
               console s
               @ [ConsoleError ''Resetting default model. No model configuration found for: ''
                    [AStr (getModelKey s)]]
               @ extra
               @ [ConsoleLog (''Setting model to '' @ name d @ ''|'' @ provider d) []]"
  proof -
    fix d rest
    assume b: "BUILTIN_CHAT_MODELS E = d # rest"
    let ?s2 = "setChatModel E d
                     (consoleError ''Resetting default model. No model configuration found for: ''
                        [AStr (getModelKey s)] s)"
    obtain extra where
      "console (snd (setChain E (getChainType s) defaultOptions ?s2)) = console ?s2 @ extra"
      using setChain_frame [of E "getChainType s" defaultOptions ?s2] by blast
    then show "\<exists>extra. console (snd (createChainWithNewModel E s)) =
               console s
               @ [ConsoleError ''Resetting default model. No model configuration found for: ''
                    [AStr (getModelKey s)]]
               @ extra
               @ [ConsoleLog (''Setting model to '' @ name d @ ''|'' @ provider d) []]"
      by (simp add: fb [OF b] consoleLog_def setChatModel_def consoleError_def)
  qed
  have lines: "\<And>d rest. BUILTIN_CHAT_MODELS E = d # rest \<Longrightarrow>
      ConsoleError ''Resetting default model. No model configuration found for: ''
               [AStr (getModelKey s)] \<in> set (console (snd (createChainWithNewModel E s)))
      \<and> ConsoleLog (''Setting model to '' @ name d @ ''|'' @ provider d) []
               \<in> set (console (snd (createChainWithNewModel E s)))
      \<and> (\<exists>extra. console (snd (createChainWithNewModel E s)) = console s @ extra)"
  proof -
    fix d rest
    assume b: "BUILTIN_CHAT_MODELS E = d # rest"
    from logs [OF b] obtain extra where
      e: "console (snd (createChainWithNewModel E s)) =
               console s
               @ [ConsoleError ''Resetting default model. No model configuration found for: ''
                    [AStr (getModelKey s)]]
               @ extra
               @ [ConsoleLog (''Setting model to '' @ name d @ ''|'' @ provider d) []]"
      by blast
    show "ConsoleError ''Resetting default model. No model configuration found for: ''
               [AStr (getModelKey s)] \<in> set (console (snd (createChainWithNewModel E s)))
      \<and> ConsoleLog (''Setting model to '' @ name d @ ''|'' @ provider d) []
               \<in> set (console (snd (createChainWithNewModel E s)))
      \<and> (\<exists>extra. console (snd (createChainWithNewModel E s)) = console s @ extra)"
      unfolding e by simp
  qed
  from ret model state lines show ?thesis by blast
qed

text \<open>
  The same on the example state with a key that names no active model and a reasoning model
  in place before the call.
\<close>

theorem createChainWithNewModel_falls_back_witness:
  "fst (createChainWithNewModel exampleEnv
          (exampleState\<lparr>modelKeySetting := ''missing|nowhere'', currentChatModel := Some o1Model\<rparr>))
     = Return ()
   \<and> getChatModel (snd (createChainWithNewModel exampleEnv
          (exampleState\<lparr>modelKeySetting := ''missing|nowhere'', currentChatModel := Some o1Model\<rparr>)))
     = Some \<lparr>modelName = Some ''gpt-4o'', model = None\<rparr>
   \<and> ConsoleError ''Resetting default model. No model configuration found for: ''
          [AStr ''missing|nowhere'']
       \<in> set (console (snd (createChainWithNewModel exampleEnv
          (exampleState\<lparr>modelKeySetting := ''missing|nowhere'', currentChatModel := Some o1Model\<rparr>))))
   \<and> ConsoleLog ''Setting model to gpt-4o|openai'' []
       \<in> set (console (snd (createChainWithNewModel exampleEnv
          (exampleState\<lparr>modelKeySetting := ''missing|nowhere'', currentChatModel := Some o1Model\<rparr>))))
   \<and> getChain (snd (createChainWithNewModel exampleEnv
          (exampleState\<lparr>modelKeySetting := ''missing|nowhere'', currentChatModel := Some o1Model\<rparr>)))
     = Some \<lparr>llm = Some \<lparr>modelName = Some ''gpt-4o'', model = None\<rparr>,
             memoryRef = MemoryInstance, prompt = examplePrompt, abortController = None\<rparr>"
proof -
  let ?s = "exampleState\<lparr>modelKeySetting := ''missing|nowhere'', currentChatModel := Some o1Model\<rparr>"
  let ?s' = "snd (createChainWithNewModel exampleEnv ?s)"
  have none: "findCustomModel (getModelKey ?s) ?s = None"
    by (simp add: findCustomModel_def keyMatches_def keyName_def keyProvider_def getModelKey_def
        exampleModel_def exampleState_def)
  have builtin: "BUILTIN_CHAT_MODELS exampleEnv = exampleModel # []"
    by (simp add: exampleEnv_def)
  note inst = createChainWithNewModel_falls_back [OF none, of exampleEnv]
  have returned: "fst (createChainWithNewModel exampleEnv ?s) = Return ()"
    using inst by blast
  have handle: "getChatModel ?s' = Some (registryInstantiate exampleEnv exampleModel)"
    using inst builtin by blast
  have state: "?s'\<lparr>console := []\<rparr> =
      (snd (setChain exampleEnv (getChainType ?s) defaultOptions
             (setChatModel exampleEnv exampleModel ?s)))\<lparr>console := []\<rparr>"
    using inst builtin by blast
  have line1: "ConsoleError ''Resetting default model. No model configuration found for: ''
          [AStr (getModelKey ?s)] \<in> set (console ?s')"
    using inst builtin by blast
  have line2: "ConsoleLog (''Setting model to '' @ name exampleModel @ ''|'' @ provider exampleModel) []
          \<in> set (console ?s')"
    using inst builtin by blast
  have "chain (?s'\<lparr>console := []\<rparr>) =
      chain ((snd (setChain exampleEnv (getChainType ?s) defaultOptions
             (setChatModel exampleEnv exampleModel ?s)))\<lparr>console := []\<rparr>)"
    by (simp only: state)
  then have "getChain ?s' = getChain (snd (setChain exampleEnv (getChainType ?s) defaultOptions
             (setChatModel exampleEnv exampleModel ?s)))"
    by (simp add: getChain_def)
  also have "\<dots> = Some \<lparr>llm = Some \<lparr>modelName = Some ''gpt-4o'', model = None\<rparr>,
             memoryRef = MemoryInstance, prompt = examplePrompt, abortController = None\<rparr>"
    by (simp add: setChain_llm getters effects setChatModel_def createNewLLMChain_def promptOr_def
        examples)
  finally have built: "getChain ?s' = Some \<lparr>llm = Some \<lparr>modelName = Some ''gpt-4o'', model = None\<rparr>,
             memoryRef = MemoryInstance, prompt = examplePrompt, abortController = None\<rparr>" .
  have handle': "getChatModel ?s' = Some \<lparr>modelName = Some ''gpt-4o'', model = None\<rparr>"
    unfolding handle by (simp add: exampleEnv_def exampleModel_def)
  have line1': "ConsoleError ''Resetting default model. No model configuration found for: ''
          [AStr ''missing|nowhere''] \<in> set (console ?s')"
    using line1 by (simp add: getModelKey_def)
  have line2': "ConsoleLog ''Setting model to gpt-4o|openai'' [] \<in> set (console ?s')"
    using line2 by (simp add: exampleModel_def)
  from returned handle' line1' line2' built show ?thesis by blast
qed

section \<open>The prompt without a system message\<close>






end
